theory Spec2Isabelle
  imports Complex_Main "HOL-Library.Word"
begin

section \<open>Python values and exceptions\<close>

text \<open>
  The notebook \<^verbatim>\<open>src/unnamed/part_000\<close> is Python. An exception is modelled as a value:
  the name of its class and its message. A computation that may raise returns
  \<open>exn + 'a\<close>, with \<open>Inl\<close> for the exception that leaves it.
\<close>

datatype exn = Exn (exn_class: string) (exn_msg: string)

definition NotImplementedError :: "string \<Rightarrow> exn" where
  "NotImplementedError msg = Exn ''NotImplementedError'' msg"

definition FileNotFoundError :: "string \<Rightarrow> exn" where
  "FileNotFoundError name = Exn ''FileNotFoundError'' name"

definition IsADirectoryError :: "string \<Rightarrow> exn" where
  "IsADirectoryError name = Exn ''IsADirectoryError'' name"

text \<open>
  The TypeError of a call that receives the same keyword twice. The name is written between
  single quotes, which is how Python prints a name that has no quote or escape in it.
\<close>

definition TypeError_multiple_values :: "string \<Rightarrow> string \<Rightarrow> exn" where
  "TypeError_multiple_values callee k =
     Exn ''TypeError''
       (callee @ '' got multiple values for keyword argument '' @ [CHR 0x27] @ k @ [CHR 0x27])"

text \<open>\<open>raise e\<close>, \<open>return v\<close> and the sequencing of two statements.\<close>

definition raise :: "exn \<Rightarrow> exn + 'a" where
  "raise e = Inl e"

definition return :: "'a \<Rightarrow> exn + 'a" where
  "return v = Inr v"

definition and_then :: "exn + 'a \<Rightarrow> ('a \<Rightarrow> exn + 'b) \<Rightarrow> exn + 'b" where
  "and_then m k = (case m of Inl e \<Rightarrow> Inl e | Inr v \<Rightarrow> k v)"

text \<open>
  \<open>raises_class c r\<close>: the computation \<open>r\<close> ended in an exception of the class named \<open>c\<close>.
\<close>

definition raises_class :: "string \<Rightarrow> exn + 'a \<Rightarrow> bool" where
  "raises_class c r = (case r of Inl e \<Rightarrow> exn_class e = c | Inr v \<Rightarrow> False)"

text \<open>
  The values the two exercise functions handle: a float, a one-dimensional array of
  floats, and the object \<^verbatim>\<open>...\<close> (Ellipsis), which is what the blanks of the exercises
  evaluate to. Numbers are mathematical reals, not 64-bit floats.
\<close>

datatype pyval = Ellipsis | Float real | NDArray "real list"

section \<open>The exercise stubs\<close>

text \<open>
  \<^verbatim>\<open>
  def sigmoid(z):
    """Return the logistic transform of z."""
    # TODO for students: Fill in the missing code (...) and remove the error
    raise NotImplementedError("Student exercise: implement the sigmoid function")
    sigmoid = ...
    return sigmoid
  \<close>
\<close>

definition sigmoid :: "pyval \<Rightarrow> exn + pyval" where
  "sigmoid z =
     and_then (raise (NotImplementedError ''Student exercise: implement the sigmoid function''))
       (\<lambda>u :: unit. return Ellipsis)"

text \<open>
  A classifier is used through its \<^verbatim>\<open>predict\<close> method only, which may itself raise.
  \<^verbatim>\<open>
  def compute_accuracy(X, y, model):
    # TODO Complete the function, then remove the next line to test it
    raise NotImplementedError("Implement the compute_accuracy function")
    y_pred = model.predict(X)
    accuracy = ...
    return accuracy
  \<close>
\<close>

record ('x, 'l) estimator =
  predict :: "'x \<Rightarrow> exn + 'l list"

definition compute_accuracy :: "'x \<Rightarrow> 'l list \<Rightarrow> ('x, 'l) estimator \<Rightarrow> exn + pyval" where
  "compute_accuracy X y model =
     and_then (raise (NotImplementedError ''Implement the compute_accuracy function''))
       (\<lambda>u :: unit. and_then (predict model X)
          (\<lambda>y_pred. return Ellipsis))"

text \<open>
  \<open>result_less r1 r2\<close>: both calls returned a float, and the first float is below the
  second. A call that raised has no value to compare.
\<close>

definition result_less :: "exn + pyval \<Rightarrow> exn + pyval \<Rightarrow> bool" where
  "result_less r1 r2 =
     (case r1 of
        Inr (Float a) \<Rightarrow> (case r2 of Inr (Float b) \<Rightarrow> a < b | _ \<Rightarrow> False)
      | _ \<Rightarrow> False)"

section \<open>What the exercises are to compute\<close>

text \<open>
  The two definitions of this section are not code of the notebook: they follow the words
  of the specification (and of the notebook's own text and docstrings, which name the same
  functions), and are there to be compared with the stubs above.

  The logistic function, \<open>1/(1+exp(-z))\<close>: the formula of the notebook's Section 1.1 and
  of the specification's sigmoid contract.
\<close>

definition sigmoid_spec :: "real \<Rightarrow> real" where
  "sigmoid_spec z = 1 / (1 + exp (- z))"

text \<open>
  The accuracy of the specification's contract and of the docstring of
  \<open>compute_accuracy\<close>: the number of positions where predicted and true label match, out
  of the number of labels. With no labels there is no fraction: the quotient would be
  \<open>0/0\<close>, which has no value in Python either (a ZeroDivisionError, or numpy's nan), so the
  result is \<open>None\<close> there.
\<close>

definition accuracy_spec :: "'l list \<Rightarrow> 'l list \<Rightarrow> real option" where
  "accuracy_spec y_pred y =
     (if length y = 0 then None
      else Some (real (length (filter (\<lambda>(p, t). p = t) (zip y_pred y))) / real (length y)))"

section \<open>Data retrieval and loading\<close>

subsection \<open>The world of the script\<close>

text \<open>
  The script touches the local file system, the standard output and the network. A path
  names a regular file with its content, a directory, or nothing. The world also keeps the
  list of URLs on which \<^verbatim>\<open>requests.get\<close> was called, in order.
\<close>

type_synonym bytes = "8 word list"

datatype fs_entry = File bytes | Dir

type_synonym filesystem = "string \<rightharpoonup> fs_entry"

record world =
  fs :: filesystem
  stdout :: "string list"
  http_gets :: "string list"

text \<open>\<^verbatim>\<open>os.path.isfile\<close>: true for an existing regular file only.\<close>

definition isfile :: "filesystem \<Rightarrow> string \<Rightarrow> bool" where
  "isfile f name = (case f name of Some (File b) \<Rightarrow> True | Some Dir \<Rightarrow> False | None \<Rightarrow> False)"

definition print_line :: "string \<Rightarrow> world \<Rightarrow> world" where
  "print_line s w = w\<lparr>stdout := stdout w @ [s]\<rparr>"

text \<open>
  \<^verbatim>\<open>with open(name, "wb") as fid: fid.write(data)\<close>: opening a directory for writing
  raises; otherwise the file is created or truncated and receives the data.
\<close>

definition open_wb_write :: "filesystem \<Rightarrow> string \<Rightarrow> bytes \<Rightarrow> exn + filesystem" where
  "open_wb_write f name data =
     (case f name of
        Some Dir \<Rightarrow> raise (IsADirectoryError name)
      | Some (File b) \<Rightarrow> return (f(name \<mapsto> File data))
      | None \<Rightarrow> return (f(name \<mapsto> File data)))"

text \<open>
  \<^verbatim>\<open>open(name, "rb")\<close> followed by reading the whole file. The file system of the model
  is flat: a name is the plain name of an entry of the working directory, as \<open>fname\<close> is.
  Paths through other directories, and the errors their resolution can raise, are not
  modelled; what is proved of the class of the error is proved for \<open>fname\<close> only.
\<close>

definition open_rb_read :: "filesystem \<Rightarrow> string \<Rightarrow> exn + bytes" where
  "open_rb_read f name =
     (case f name of
        None \<Rightarrow> raise (FileNotFoundError name)
      | Some Dir \<Rightarrow> raise (IsADirectoryError name)
      | Some (File b) \<Rightarrow> return b)"

subsection \<open>The download\<close>

text \<open>
  What one call of \<^verbatim>\<open>requests.get\<close> does is given by the network, so it is a parameter
  of the script: the call raises an exception that the clause
  \<^verbatim>\<open>except requests.ConnectionError\<close> catches, or raises another exception, or returns a
  response. The MD5 digest (\<^verbatim>\<open>hashlib.md5(...).hexdigest()\<close>) is a parameter too.
\<close>

record response =
  status_code :: nat
  content :: bytes

datatype get_outcome = Raised_ConnectionError | Raised_other exn | Returned response

definition url :: string where
  "url = ''https://osf.io/r9gh8/download''"

definition fname :: string where
  "fname = ''W1D4_steinmetz_data.npz''"

definition expected_md5 :: string where
  "expected_md5 = ''d19716354fed0981267456b80db07ea8''"

text \<open>\<^verbatim>\<open>requests.codes.ok\<close>\<close>

definition codes_ok :: nat where
  "codes_ok = 200"

text \<open>
  \<^verbatim>\<open>
  if not os.path.isfile(fname):
    try:
      r = requests.get(url)
    except requests.ConnectionError:
      print("!!! Failed to download data !!!")
    else:
      if r.status_code != requests.codes.ok:
        print("!!! Failed to download data !!!")
      elif hashlib.md5(r.content).hexdigest() != expected_md5:
        print("!!! Data download appears corrupted !!!")
      else:
        with open(fname, "wb") as fid:
          fid.write(r.content)
  \<close>
  The result is the exception that leaves the block, if any, and the world after it.
\<close>

definition data_retrieval ::
  "(string \<Rightarrow> get_outcome) \<Rightarrow> (bytes \<Rightarrow> string) \<Rightarrow> world \<Rightarrow> (exn + unit) \<times> world" where
  "data_retrieval requests_get md5_hexdigest w =
     (if \<not> isfile (fs w) fname then
        (let w1 = w\<lparr>http_gets := http_gets w @ [url]\<rparr> in
         case requests_get url of
           Raised_ConnectionError \<Rightarrow> (return (), print_line ''!!! Failed to download data !!!'' w1)
         | Raised_other e \<Rightarrow> (raise e, w1)
         | Returned r \<Rightarrow>
             if status_code r \<noteq> codes_ok then
               (return (), print_line ''!!! Failed to download data !!!'' w1)
             else if md5_hexdigest (content r) \<noteq> expected_md5 then
               (return (), print_line ''!!! Data download appears corrupted !!!'' w1)
             else
               (case open_wb_write (fs w1) fname (content r) of
                  Inl e \<Rightarrow> (raise e, w1)
                | Inr f' \<Rightarrow> (return (), w1\<lparr>fs := f'\<rparr>)))
      else (return (), w))"

subsection \<open>Loading\<close>

text \<open>
  An opened \<^verbatim>\<open>.npz\<close> archive (numpy's \<^verbatim>\<open>NpzFile\<close>) is a mapping: its keys are the
  names of the stored arrays, and reading a key decodes that array, which may raise.
  How numpy decodes the bytes of a file into such an object (or fails to) is a
  parameter, \<open>npz_parse\<close>.
\<close>

record 'a npzfile =
  files :: "string list"
  getitem :: "string \<Rightarrow> exn + 'a"

definition np_load ::
  "(bytes \<Rightarrow> exn + 'a npzfile) \<Rightarrow> filesystem \<Rightarrow> string \<Rightarrow> exn + 'a npzfile" where
  "np_load npz_parse f name = and_then (open_rb_read f name) npz_parse"

text \<open>
  \<^verbatim>\<open>dict(**dobj)\<close>: the keys of the mapping are taken in turn; a key that is already in the
  dictionary under construction raises a TypeError (the call would receive the same keyword
  twice), before the key is read; otherwise the key is read, which may raise, and stored.
\<close>

fun dict_items :: "'a npzfile \<Rightarrow> string list \<Rightarrow> (string \<rightharpoonup> 'a) \<Rightarrow> exn + (string \<rightharpoonup> 'a)" where
  "dict_items dobj [] d = return d"
| "dict_items dobj (k # ks) d =
     (case d k of
        Some v' \<Rightarrow> raise (TypeError_multiple_values ''dict()'' k)
      | None \<Rightarrow> and_then (getitem dobj k) (\<lambda>v. dict_items dobj ks (d(k \<mapsto> v))))"

definition dict_of :: "'a npzfile \<Rightarrow> exn + (string \<rightharpoonup> 'a)" where
  "dict_of dobj = dict_items dobj (files dobj) Map.empty"

text \<open>
  \<^verbatim>\<open>
  def load_steinmetz_data(data_fname=fname):
    with np.load(data_fname) as dobj:
      data = dict(**dobj)
    return data
  \<close>
\<close>

definition load_steinmetz_data ::
  "(bytes \<Rightarrow> exn + 'a npzfile) \<Rightarrow> filesystem \<Rightarrow> string \<Rightarrow> exn + (string \<rightharpoonup> 'a)" where
  "load_steinmetz_data npz_parse f data_fname =
     and_then (np_load npz_parse f data_fname)
       (\<lambda>dobj. and_then (dict_of dobj) (\<lambda>data. return data))"

section \<open>Properties of the stubs\<close>

lemma and_then_raise: "and_then (raise e) k = Inl e"
  by (simp add: and_then_def raise_def)

lemma sigmoid_raises: "sigmoid z = Inl (NotImplementedError ''Student exercise: implement the sigmoid function'')"
  by (simp add: sigmoid_def and_then_raise)

lemma compute_accuracy_raises:
  "compute_accuracy X y model = Inl (NotImplementedError ''Implement the compute_accuracy function'')"
  by (simp add: compute_accuracy_def and_then_raise)

section \<open>Properties of the functions the exercises ask for\<close>

lemma sigmoid_spec_pos: "0 < sigmoid_spec z"
  by (simp add: sigmoid_spec_def add_pos_pos)

lemma sigmoid_spec_less_1: "sigmoid_spec z < 1"
  by (simp add: sigmoid_spec_def add_pos_pos)

lemma sigmoid_spec_minus: "sigmoid_spec (- z) = 1 - sigmoid_spec z"
proof -
  have e: "exp (- z) = 1 / exp z" by (simp add: exp_minus field_simps)
  have p: "0 < exp z" by simp
  have q: "1 + exp z \<noteq> 0" using p by (simp add: add_pos_pos less_imp_neq[symmetric])
  show ?thesis
    unfolding sigmoid_spec_def using p q by (simp add: e field_simps)
qed

lemma sigmoid_spec_0: "sigmoid_spec 0 = 1 / 2"
  by (simp add: sigmoid_spec_def)

lemma sigmoid_spec_strict_mono: "z1 < z2 \<Longrightarrow> sigmoid_spec z1 < sigmoid_spec z2"
proof -
  assume "z1 < z2"
  then have "exp (- z2) < exp (- z1)" by simp
  then have "1 + exp (- z2) < 1 + exp (- z1)" by simp
  moreover have "0 < 1 + exp (- z2)" by (simp add: add_pos_pos)
  ultimately show ?thesis
    unfolding sigmoid_spec_def by (simp add: frac_less2)
qed

lemma accuracy_spec_empty: "accuracy_spec y_pred [] = None"
  by (simp add: accuracy_spec_def)

lemma accuracy_spec_bounds:
  assumes l: "length y_pred = length y" and ne: "y \<noteq> []"
  shows "\<exists>a. accuracy_spec y_pred y = Some a \<and> 0 \<le> a \<and> a \<le> 1"
proof -
  have "length (filter (\<lambda>(p, t). p = t) (zip y_pred y)) \<le> length (zip y_pred y)"
    by (rule length_filter_le)
  also have "\<dots> = length y" using l by simp
  finally have "real (length (filter (\<lambda>(p, t). p = t) (zip y_pred y))) \<le> real (length y)"
    by simp
  then show ?thesis
    using ne by (simp add: accuracy_spec_def divide_le_eq_1)
qed

lemma filter_zip_same: "filter (\<lambda>(p, t). p = t) (zip y y) = zip y y"
  by (induction y) simp_all

lemma accuracy_spec_same: "y \<noteq> [] \<Longrightarrow> accuracy_spec y y = Some 1"
  by (simp add: accuracy_spec_def filter_zip_same)

lemma filter_zip_flipped: "filter (\<lambda>(p, t). p = t) (zip (map (\<lambda>b. 1 - b) y) y) = []" for y :: "int list"
  by (induction y) (simp_all, presburger)

lemma accuracy_spec_flipped: "y \<noteq> [] \<Longrightarrow> accuracy_spec (map (\<lambda>b. 1 - b) y) y = Some 0" for y :: "int list"
  by (simp add: accuracy_spec_def filter_zip_flipped)

section \<open>Properties of the download\<close>

lemma data_retrieval_cached:
  "isfile (fs w) fname \<Longrightarrow> data_retrieval requests_get md5_hexdigest w = (Inr (), w)"
  by (simp add: data_retrieval_def return_def)

lemma data_retrieval_connection_error:
  "\<not> isfile (fs w) fname \<Longrightarrow> requests_get url = Raised_ConnectionError \<Longrightarrow>
   data_retrieval requests_get md5_hexdigest w =
     (Inr (), w\<lparr>stdout := stdout w @ [''!!! Failed to download data !!!''],
                http_gets := http_gets w @ [url]\<rparr>)"
  by (simp add: data_retrieval_def return_def print_line_def Let_def)

lemma data_retrieval_bad_status:
  "\<not> isfile (fs w) fname \<Longrightarrow> requests_get url = Returned r \<Longrightarrow> status_code r \<noteq> codes_ok \<Longrightarrow>
   data_retrieval requests_get md5_hexdigest w =
     (Inr (), w\<lparr>stdout := stdout w @ [''!!! Failed to download data !!!''],
                http_gets := http_gets w @ [url]\<rparr>)"
  by (simp add: data_retrieval_def return_def print_line_def Let_def)

lemma data_retrieval_bad_hash:
  "\<not> isfile (fs w) fname \<Longrightarrow> requests_get url = Returned r \<Longrightarrow> status_code r = codes_ok \<Longrightarrow>
   md5_hexdigest (content r) \<noteq> expected_md5 \<Longrightarrow>
   data_retrieval requests_get md5_hexdigest w =
     (Inr (), w\<lparr>stdout := stdout w @ [''!!! Data download appears corrupted !!!''],
                http_gets := http_gets w @ [url]\<rparr>)"
  by (simp add: data_retrieval_def return_def print_line_def Let_def)

lemma data_retrieval_other_exception:
  "\<not> isfile (fs w) fname \<Longrightarrow> requests_get url = Raised_other e \<Longrightarrow>
   data_retrieval requests_get md5_hexdigest w = (Inl e, w\<lparr>http_gets := http_gets w @ [url]\<rparr>)"
  by (simp add: data_retrieval_def raise_def Let_def)

lemma data_retrieval_verified:
  "\<not> isfile (fs w) fname \<Longrightarrow> requests_get url = Returned r \<Longrightarrow> status_code r = codes_ok \<Longrightarrow>
   md5_hexdigest (content r) = expected_md5 \<Longrightarrow>
   data_retrieval requests_get md5_hexdigest w =
     (if fs w fname = Some Dir then (Inl (IsADirectoryError fname), w\<lparr>http_gets := http_gets w @ [url]\<rparr>)
      else (Inr (), w\<lparr>fs := (fs w)(fname \<mapsto> File (content r)), http_gets := http_gets w @ [url]\<rparr>))"
  by (auto simp add: data_retrieval_def raise_def return_def Let_def open_wb_write_def isfile_def
      split: option.splits fs_entry.splits)

text \<open>Every path through the block, with the world it leaves.\<close>

lemma data_retrieval_cases:
  "data_retrieval requests_get md5_hexdigest w =
     (if isfile (fs w) fname then (Inr (), w)
      else case requests_get url of
        Raised_ConnectionError \<Rightarrow>
          (Inr (), w\<lparr>stdout := stdout w @ [''!!! Failed to download data !!!''],
                     http_gets := http_gets w @ [url]\<rparr>)
      | Raised_other e \<Rightarrow> (Inl e, w\<lparr>http_gets := http_gets w @ [url]\<rparr>)
      | Returned r \<Rightarrow>
          if status_code r \<noteq> codes_ok then
            (Inr (), w\<lparr>stdout := stdout w @ [''!!! Failed to download data !!!''],
                       http_gets := http_gets w @ [url]\<rparr>)
          else if md5_hexdigest (content r) \<noteq> expected_md5 then
            (Inr (), w\<lparr>stdout := stdout w @ [''!!! Data download appears corrupted !!!''],
                       http_gets := http_gets w @ [url]\<rparr>)
          else if fs w fname = Some Dir then
            (Inl (IsADirectoryError fname), w\<lparr>http_gets := http_gets w @ [url]\<rparr>)
          else (Inr (), w\<lparr>fs := (fs w)(fname \<mapsto> File (content r)),
                          http_gets := http_gets w @ [url]\<rparr>))"
  by (cases "requests_get url")
     (simp_all add: data_retrieval_cached data_retrieval_connection_error
        data_retrieval_bad_status data_retrieval_bad_hash data_retrieval_other_exception
        data_retrieval_verified)


lemma isfile_after_write: "isfile (f(name \<mapsto> File data)) name"
  by (simp add: isfile_def)

lemma data_retrieval_failed:
  assumes absent: "\<not> isfile (fs w) fname"
    and failed: "requests_get url = Raised_ConnectionError \<or>
       (\<exists>r. requests_get url = Returned r \<and>
            (status_code r \<noteq> codes_ok \<or> md5_hexdigest (content r) \<noteq> expected_md5))"
  shows "data_retrieval requests_get md5_hexdigest w =
           (Inr (), w\<lparr>stdout := stdout w @ [''!!! Failed to download data !!!''],
                      http_gets := http_gets w @ [url]\<rparr>)
       \<or> data_retrieval requests_get md5_hexdigest w =
           (Inr (), w\<lparr>stdout := stdout w @ [''!!! Data download appears corrupted !!!''],
                      http_gets := http_gets w @ [url]\<rparr>)"
proof -
  from failed consider
      (refused) "requests_get url = Raised_ConnectionError"
    | (status) r where "requests_get url = Returned r" "status_code r \<noteq> codes_ok"
    | (hash) r where "requests_get url = Returned r" "status_code r = codes_ok"
        "md5_hexdigest (content r) \<noteq> expected_md5"
    by blast
  then show ?thesis
  proof cases
    case refused
    then show ?thesis using absent by (simp add: data_retrieval_connection_error)
  next
    case status
    then show ?thesis using absent by (simp add: data_retrieval_bad_status)
  next
    case hash
    then show ?thesis using absent by (simp add: data_retrieval_bad_hash)
  qed
qed

lemma data_retrieval_fs_changed:
  assumes changed: "fs (snd (data_retrieval requests_get md5_hexdigest w)) \<noteq> fs w"
  shows "\<not> isfile (fs w) fname \<and>
         (\<exists>r. requests_get url = Returned r \<and> status_code r = codes_ok \<and>
              md5_hexdigest (content r) = expected_md5 \<and>
              data_retrieval requests_get md5_hexdigest w =
                (Inr (), w\<lparr>fs := (fs w)(fname \<mapsto> File (content r)),
                           http_gets := http_gets w @ [url]\<rparr>))"
proof -
  have absent: "\<not> isfile (fs w) fname"
    using changed by (auto simp add: data_retrieval_cached)
  show ?thesis
  proof (cases "requests_get url")
    case Raised_ConnectionError
    then show ?thesis using changed absent by (simp add: data_retrieval_connection_error)
  next
    case (Raised_other e)
    then show ?thesis using changed absent by (simp add: data_retrieval_other_exception)
  next
    case (Returned r)
    show ?thesis
    proof (cases "status_code r = codes_ok")
      case False
      then show ?thesis using changed absent Returned by (simp add: data_retrieval_bad_status)
    next
      case ok: True
      show ?thesis
      proof (cases "md5_hexdigest (content r) = expected_md5")
        case False
        then show ?thesis using changed absent Returned ok by (simp add: data_retrieval_bad_hash)
      next
        case True
        then show ?thesis using changed absent Returned ok
          by (simp add: data_retrieval_verified split: if_splits)
      qed
    qed
  qed
qed

lemma data_retrieval_http_gets:
  "http_gets (snd (data_retrieval requests_get md5_hexdigest w)) =
     http_gets w @ (if isfile (fs w) fname then [] else [url])"
  by (cases "requests_get url") (simp_all add: data_retrieval_cases)

section \<open>Properties of loading\<close>

lemma dict_items_distinct:
  assumes "\<forall>k\<in>set ks. \<exists>v. getitem dobj k = Inr v"
    and "distinct ks" and "\<forall>k\<in>set ks. d k = None"
  shows "dict_items dobj ks d =
           Inr (\<lambda>k. if k \<in> set ks then Some (projr (getitem dobj k)) else d k)"
  using assms
proof (induction ks arbitrary: d)
  case Nil
  show ?case by (simp add: return_def)
next
  case (Cons k ks)
  then obtain v where v: "getitem dobj k = Inr v" by auto
  have fresh: "d k = None" using Cons.prems by simp
  let ?f = "\<lambda>k'. if k' \<in> set ks then Some (projr (getitem dobj k')) else (d(k \<mapsto> v)) k'"
  let ?g = "\<lambda>k'. if k' \<in> set (k # ks) then Some (projr (getitem dobj k')) else d k'"
  have step: "dict_items dobj (k # ks) d = dict_items dobj ks (d(k \<mapsto> v))"
    using v fresh by (simp add: and_then_def)
  have ih: "dict_items dobj ks (d(k \<mapsto> v)) = Inr ?f"
    by (rule Cons.IH) (use Cons.prems in auto)
  have eq: "?f = ?g"
    using v by (auto simp add: fun_eq_iff)
  show ?case by (simp only: step ih eq)
qed

lemma dict_items_repeated:
  assumes "\<forall>k\<in>set ks. \<exists>v. getitem dobj k = Inr v"
    and "\<not> distinct ks \<or> (\<exists>k\<in>set ks. d k \<noteq> None)"
  shows "raises_class ''TypeError'' (dict_items dobj ks d)"
  using assms
proof (induction ks arbitrary: d)
  case Nil
  then show ?case by simp
next
  case (Cons k ks)
  show ?case
  proof (cases "d k")
    case (Some v')
    then show ?thesis
      by (simp add: raise_def raises_class_def TypeError_multiple_values_def)
  next
    case None
    obtain v where v: "getitem dobj k = Inr v" using Cons.prems by auto
    have step: "dict_items dobj (k # ks) d = dict_items dobj ks (d(k \<mapsto> v))"
      using v None by (simp add: and_then_def)
    have "\<not> distinct ks \<or> (\<exists>k'\<in>set ks. (d(k \<mapsto> v)) k' \<noteq> None)"
      using Cons.prems(2) None by auto
    then have "raises_class ''TypeError'' (dict_items dobj ks (d(k \<mapsto> v)))"
      by (intro Cons.IH) (use Cons.prems in auto)
    then show ?thesis by (simp only: step)
  qed
qed

lemma load_steinmetz_data_not_a_file:
  assumes "\<not> isfile f data_fname"
  shows "load_steinmetz_data npz_parse f data_fname =
           Inl (if f data_fname = None then FileNotFoundError data_fname
                else IsADirectoryError data_fname)"
  using assms
  by (simp add: load_steinmetz_data_def np_load_def open_rb_read_def and_then_def raise_def
      isfile_def split: option.splits fs_entry.splits)

section \<open>The claims\<close>

subsection \<open>C5\<close>

text \<open>
  C5. For every input, \<open>sigmoid\<close> as shipped raises NotImplementedError before it computes
  or returns anything, and \<open>compute_accuracy\<close> raises NotImplementedError for every
  \<open>(X, y, model)\<close>, whatever the model's \<open>predict\<close> would do: in both the raise statement
  comes before all computation.
\<close>

theorem stubs_raise_NotImplementedError:
  "sigmoid z = Inl (NotImplementedError ''Student exercise: implement the sigmoid function'')
   \<and> raises_class ''NotImplementedError'' (sigmoid z)
   \<and> compute_accuracy X y model = Inl (NotImplementedError ''Implement the compute_accuracy function'')
   \<and> raises_class ''NotImplementedError'' (compute_accuracy X y model)"
  by (simp add: sigmoid_raises compute_accuracy_raises raises_class_def NotImplementedError_def)

subsection \<open>C2\<close>

text \<open>
  The claim says that \<open>sigmoid\<close> returns \<open>1/(1+exp(-z))\<close> and has no error condition.
  The function of the notebook returns nothing: at \<open>z = 0\<close> it raises.
\<close>

theorem sigmoid_returns_logistic_counterexample:
  "sigmoid (Float 0) \<noteq> Inr (Float (sigmoid_spec 0))
   \<and> raises_class ''NotImplementedError'' (sigmoid (Float 0))"
  by (simp add: sigmoid_raises raises_class_def NotImplementedError_def)

text \<open>
  C2, as amended. For every scalar or array input, \<open>sigmoid\<close> as shipped returns no value
  and raises NotImplementedError (the exercise leaves the formula to the student). The
  formula it is to compute, \<open>1/(1+exp(-z))\<close>, lies strictly between 0 and 1 for every real
  \<open>z\<close>, and so does every element of its elementwise application to an array.
\<close>

theorem sigmoid_stub_and_logistic_range:
  "sigmoid (Float z) = Inl (NotImplementedError ''Student exercise: implement the sigmoid function'')
   \<and> sigmoid (NDArray zs) = Inl (NotImplementedError ''Student exercise: implement the sigmoid function'')
   \<and> 0 < sigmoid_spec z \<and> sigmoid_spec z < 1
   \<and> list_all (\<lambda>s. 0 < s \<and> s < 1) (map sigmoid_spec zs)"
  by (simp add: sigmoid_raises sigmoid_spec_pos sigmoid_spec_less_1 list_all_iff)

theorem sigmoid_stub_and_logistic_range_witness:
  "sigmoid (Float 2) = Inl (Exn ''NotImplementedError'' ''Student exercise: implement the sigmoid function'')
   \<and> 0 < sigmoid_spec 2 \<and> sigmoid_spec 2 < 1
   \<and> list_all (\<lambda>s. 0 < s \<and> s < 1) (map sigmoid_spec [- 1, 0, 3])"
  using sigmoid_stub_and_logistic_range [of 2 "[- 1, 0, 3]"]
  by (simp add: NotImplementedError_def)

subsection \<open>C3\<close>

text \<open>
  The claim says that, for every pair of label vectors of equal length, the scorer returns
  the fraction of matching positions, 1.0 when the predictions equal the labels. With
  predictions \<open>[0, 1]\<close> and labels \<open>[0, 1]\<close> the function of the notebook does not return 1.0:
  it raises. And for the pair of empty vectors, which have equal length, there is no
  fraction of matching positions at all, so none that equals 1.0.
\<close>

theorem compute_accuracy_fraction_counterexample:
  "predict \<lparr>predict = \<lambda>X :: real list list. Inr [0, 1 :: int]\<rparr> [[1 / 2], [1 / 4]] = Inr [0, 1]
   \<and> length [0, 1 :: int] = length [0, 1 :: int]
   \<and> compute_accuracy [[1 / 2], [1 / 4]] [0, 1 :: int]
        \<lparr>predict = \<lambda>X :: real list list. Inr [0, 1 :: int]\<rparr> \<noteq> Inr (Float 1)
   \<and> raises_class ''NotImplementedError''
        (compute_accuracy [[1 / 2], [1 / 4]] [0, 1 :: int]
           \<lparr>predict = \<lambda>X :: real list list. Inr [0, 1 :: int]\<rparr>)
   \<and> length ([] :: int list) = length ([] :: int list)
   \<and> accuracy_spec ([] :: int list) [] \<noteq> Some 1
   \<and> accuracy_spec ([] :: int list) [] = None"
  by (simp add: compute_accuracy_raises raises_class_def NotImplementedError_def
      accuracy_spec_empty)

text \<open>
  C3, as amended. For every pair of predicted and true label vectors of equal length,
  \<open>compute_accuracy\<close> as shipped returns no value and raises NotImplementedError (the
  exercise leaves the computation to the student). For vectors of equal length that are not
  empty, the fraction of matching positions it is to compute exists and lies in \<open>[0,1]\<close>, is 1
  for \<open>accuracy(y, y)\<close>, and is 0 for \<open>accuracy(not y, y)\<close>, where \<open>not y\<close> is \<open>1 - y\<close>
  elementwise.
\<close>

theorem compute_accuracy_stub_and_fraction:
  fixes y :: "int list"
  assumes "predict model X = Inr y_pred" and "length y_pred = length y"
  shows "compute_accuracy X y model = Inl (NotImplementedError ''Implement the compute_accuracy function'')
   \<and> raises_class ''NotImplementedError'' (compute_accuracy X y model)
   \<and> (y \<noteq> [] \<longrightarrow>
        (\<exists>a. accuracy_spec y_pred y = Some a \<and> 0 \<le> a \<and> a \<le> 1)
        \<and> accuracy_spec y y = Some 1
        \<and> accuracy_spec (map (\<lambda>b. 1 - b) y) y = Some 0)"
proof (intro conjI impI)
  show "compute_accuracy X y model = Inl (NotImplementedError ''Implement the compute_accuracy function'')"
    by (rule compute_accuracy_raises)
  then show "raises_class ''NotImplementedError'' (compute_accuracy X y model)"
    by (simp add: raises_class_def NotImplementedError_def)
next
  assume ne: "y \<noteq> []"
  show "\<exists>a. accuracy_spec y_pred y = Some a \<and> 0 \<le> a \<and> a \<le> 1"
    using assms(2) ne by (rule accuracy_spec_bounds)
  show "accuracy_spec y y = Some 1"
    using ne by (rule accuracy_spec_same)
  show "accuracy_spec (map (\<lambda>b. 1 - b) y) y = Some 0"
    using ne by (rule accuracy_spec_flipped)
qed

theorem compute_accuracy_stub_and_fraction_witness:
  "predict \<lparr>predict = \<lambda>X :: real list list. Inr [0, 0 :: int]\<rparr> [[1 / 2], [1 / 4]] = Inr [0, 0]
   \<and> length [0, 0 :: int] = length [0, 1 :: int]
   \<and> [0, 1 :: int] \<noteq> []
   \<and> compute_accuracy [[1 / 2], [1 / 4]] [0, 1 :: int]
        \<lparr>predict = \<lambda>X :: real list list. Inr [0, 0 :: int]\<rparr>
      = Inl (Exn ''NotImplementedError'' ''Implement the compute_accuracy function'')
   \<and> accuracy_spec [0, 0] [0, 1 :: int] = Some (1 / 2)
   \<and> accuracy_spec [0, 1] [0, 1 :: int] = Some 1
   \<and> accuracy_spec [1, 0] [0, 1 :: int] = Some 0"
proof -
  let ?m = "\<lparr>predict = \<lambda>X :: real list list. Inr [0, 0 :: int]\<rparr>"
  have p: "predict ?m [[1 / 2], [1 / 4]] = Inr [0, 0]" by simp
  have l: "length [0, 0 :: int] = length [0, 1 :: int]" by simp
  have ne: "[0, 1 :: int] \<noteq> []" by simp
  have half: "accuracy_spec [0, 0] [0, 1 :: int] = Some (1 / 2)"
    by (simp add: accuracy_spec_def)
  from compute_accuracy_stub_and_fraction [OF p l] ne
  have "compute_accuracy [[1 / 2], [1 / 4]] [0, 1 :: int] ?m
          = Inl (NotImplementedError ''Implement the compute_accuracy function'')
        \<and> accuracy_spec [0, 1] [0, 1 :: int] = Some 1
        \<and> accuracy_spec (map (\<lambda>b. 1 - b) [0, 1]) [0, 1 :: int] = Some 0"
    by blast
  then show ?thesis using p l ne half by (simp add: NotImplementedError_def)
qed

subsection \<open>C4\<close>

text \<open>
  The claim says that label vectors of different lengths make the scorer fail with an
  InvalidInput condition. With one prediction and two labels the exception raised is not of
  that class.
\<close>

theorem compute_accuracy_length_check_counterexample:
  "predict \<lparr>predict = \<lambda>X :: real list list. Inr [0 :: int]\<rparr> [[1 / 2]] = Inr [0]
   \<and> length [0 :: int] \<noteq> length [0, 1 :: int]
   \<and> \<not> raises_class ''InvalidInput''
        (compute_accuracy [[1 / 2]] [0, 1 :: int] \<lparr>predict = \<lambda>X :: real list list. Inr [0 :: int]\<rparr>)"
  by (simp add: compute_accuracy_raises raises_class_def NotImplementedError_def)

text \<open>
  C4, as amended. For every pair of predicted and true label vectors whose lengths differ,
  \<open>compute_accuracy\<close> as shipped raises rather than returns, and the exception is
  NotImplementedError, not InvalidInput: it is the exception raised when the lengths agree,
  and no comparison of lengths takes place.
\<close>

theorem compute_accuracy_length_mismatch:
  assumes "predict model X = Inr y_pred" and "length y_pred \<noteq> length y"
  shows "raises_class ''NotImplementedError'' (compute_accuracy X y model)
   \<and> \<not> raises_class ''InvalidInput'' (compute_accuracy X y model)
   \<and> compute_accuracy X y model = compute_accuracy X y_pred model"
  by (simp add: compute_accuracy_raises raises_class_def NotImplementedError_def)

theorem compute_accuracy_length_mismatch_witness:
  "predict \<lparr>predict = \<lambda>X :: real list list. Inr [0 :: int]\<rparr> [[1 / 2]] = Inr [0]
   \<and> length [0 :: int] \<noteq> length [0, 1 :: int]
   \<and> raises_class ''NotImplementedError''
        (compute_accuracy [[1 / 2]] [0, 1 :: int] \<lparr>predict = \<lambda>X :: real list list. Inr [0 :: int]\<rparr>)"
proof -
  let ?m = "\<lparr>predict = \<lambda>X :: real list list. Inr [0 :: int]\<rparr>"
  have p: "predict ?m [[1 / 2]] = Inr [0]" by simp
  have l: "length [0 :: int] \<noteq> length [0, 1 :: int]" by simp
  from compute_accuracy_length_mismatch [OF p l] p l show ?thesis by blast
qed

subsection \<open>C6\<close>

text \<open>
  The claim says that \<open>sigmoid(0) = 0.5\<close>. The function of the notebook does not return 0.5
  at 0.
\<close>

theorem sigmoid_symmetry_counterexample:
  "sigmoid (Float 0) \<noteq> Inr (Float (1 / 2))"
  by (simp add: sigmoid_raises)

text \<open>
  C6, as amended. \<open>sigmoid\<close> as shipped raises NotImplementedError at \<open>-z\<close>, at \<open>z\<close> and at 0,
  with the same outcome for \<open>-z\<close> and \<open>z\<close>. The formula it is to compute satisfies
  \<open>\<sigma>(-z) = 1 - \<sigma>(z)\<close> for every real \<open>z\<close>, and \<open>\<sigma>(0) = 0.5\<close>.
\<close>

theorem sigmoid_stub_and_logistic_symmetry:
  "sigmoid (Float (- z)) = sigmoid (Float z)
   \<and> raises_class ''NotImplementedError'' (sigmoid (Float (- z)))
   \<and> raises_class ''NotImplementedError'' (sigmoid (Float 0))
   \<and> sigmoid_spec (- z) = 1 - sigmoid_spec z
   \<and> sigmoid_spec 0 = 1 / 2"
  by (simp add: sigmoid_raises raises_class_def NotImplementedError_def
      sigmoid_spec_minus sigmoid_spec_0)

subsection \<open>C7\<close>

text \<open>
  The claim says that \<open>sigmoid(z1) < sigmoid(z2)\<close> whenever \<open>z1 < z2\<close>. At 0 and 1 the two
  calls of the notebook's function raise, and return no floats to compare.
\<close>

theorem sigmoid_monotone_counterexample:
  "(0::real) < 1
   \<and> raises_class ''NotImplementedError'' (sigmoid (Float 0))
   \<and> raises_class ''NotImplementedError'' (sigmoid (Float 1))
   \<and> \<not> result_less (sigmoid (Float 0)) (sigmoid (Float 1))"
  by (simp add: sigmoid_raises result_less_def raises_class_def NotImplementedError_def)

text \<open>
  C7, as amended. \<open>sigmoid\<close> as shipped returns no value at any real: at every two reals
  \<open>z1\<close> and \<open>z2\<close> both calls raise NotImplementedError, with the same outcome, so no returned
  value is below another. The formula it is to compute is strictly increasing: for reals
  \<open>z1 < z2\<close>, \<open>\<sigma>(z1) < \<sigma>(z2)\<close>.
\<close>

theorem sigmoid_stub_and_logistic_monotone:
  "sigmoid (Float z1) = Inl (NotImplementedError ''Student exercise: implement the sigmoid function'')
   \<and> sigmoid (Float z2) = Inl (NotImplementedError ''Student exercise: implement the sigmoid function'')
   \<and> raises_class ''NotImplementedError'' (sigmoid (Float z1))
   \<and> raises_class ''NotImplementedError'' (sigmoid (Float z2))
   \<and> sigmoid (Float z1) = sigmoid (Float z2)
   \<and> \<not> result_less (sigmoid (Float z1)) (sigmoid (Float z2))
   \<and> (z1 < z2 \<longrightarrow> sigmoid_spec z1 < sigmoid_spec z2)"
  by (simp add: sigmoid_raises result_less_def raises_class_def NotImplementedError_def
      sigmoid_spec_strict_mono)

theorem sigmoid_stub_and_logistic_monotone_witness:
  "(1::real) < 2 \<and> sigmoid_spec 1 < sigmoid_spec 2
   \<and> raises_class ''NotImplementedError'' (sigmoid (Float 1))
   \<and> raises_class ''NotImplementedError'' (sigmoid (Float 2))
   \<and> \<not> result_less (sigmoid (Float 1)) (sigmoid (Float 2))"
proof -
  have h: "(1::real) < 2" by simp
  from sigmoid_stub_and_logistic_monotone [of 1 2] h show ?thesis by blast
qed

subsection \<open>C1\<close>

text \<open>
  C1. The data-retrieval block persists the downloaded file only if its MD5 hash matches
  the expected value: whenever a run changes the file system, the fetch returned a response
  with status 200 whose digest is the expected one, and the only change is the cache file
  with that content. In every run that fetches (the cache file is absent) and in which the
  fetch raises a connection error, returns a status other than 200, or returns content whose
  digest differs from the expected value, the block ends without an exception, prints one
  of its two error messages, and leaves the file system as it was: the cache file is
  neither created nor retained.
\<close>

theorem data_retrieval_persists_only_verified:
  assumes run: "data_retrieval requests_get md5_hexdigest w = (res, w')"
  shows "(fs w' \<noteq> fs w \<longrightarrow>
            (\<exists>r. requests_get url = Returned r \<and> status_code r = codes_ok \<and>
                 md5_hexdigest (content r) = expected_md5 \<and>
                 fs w' = (fs w)(fname \<mapsto> File (content r))))
       \<and> (\<not> isfile (fs w) fname \<and>
            (requests_get url = Raised_ConnectionError \<or>
             (\<exists>r. requests_get url = Returned r \<and>
                  (status_code r \<noteq> codes_ok \<or> md5_hexdigest (content r) \<noteq> expected_md5))) \<longrightarrow>
            res = Inr () \<and> fs w' = fs w \<and> \<not> isfile (fs w') fname \<and>
            (stdout w' = stdout w @ [''!!! Failed to download data !!!''] \<or>
             stdout w' = stdout w @ [''!!! Data download appears corrupted !!!'']))"
proof (intro conjI impI)
  assume "fs w' \<noteq> fs w"
  then have "fs (snd (data_retrieval requests_get md5_hexdigest w)) \<noteq> fs w"
    using run by simp
  from data_retrieval_fs_changed [OF this] run
  show "\<exists>r. requests_get url = Returned r \<and> status_code r = codes_ok \<and>
            md5_hexdigest (content r) = expected_md5 \<and>
            fs w' = (fs w)(fname \<mapsto> File (content r))"
    by auto
next
  assume failed: "\<not> isfile (fs w) fname \<and>
            (requests_get url = Raised_ConnectionError \<or>
             (\<exists>r. requests_get url = Returned r \<and>
                  (status_code r \<noteq> codes_ok \<or> md5_hexdigest (content r) \<noteq> expected_md5)))"
  then have absent: "\<not> isfile (fs w) fname" by simp
  from failed have
    "data_retrieval requests_get md5_hexdigest w =
           (Inr (), w\<lparr>stdout := stdout w @ [''!!! Failed to download data !!!''],
                      http_gets := http_gets w @ [url]\<rparr>)
       \<or> data_retrieval requests_get md5_hexdigest w =
           (Inr (), w\<lparr>stdout := stdout w @ [''!!! Data download appears corrupted !!!''],
                      http_gets := http_gets w @ [url]\<rparr>)"
    by (intro data_retrieval_failed) simp_all
  then have w': "res = Inr () \<and>
      (w' = w\<lparr>stdout := stdout w @ [''!!! Failed to download data !!!''],
                http_gets := http_gets w @ [url]\<rparr> \<or>
       w' = w\<lparr>stdout := stdout w @ [''!!! Data download appears corrupted !!!''],
                http_gets := http_gets w @ [url]\<rparr>)"
    using run by auto
  then show "res = Inr ()" by simp
  from w' show same: "fs w' = fs w" by auto
  show "\<not> isfile (fs w') fname" using absent same by simp
  from w' show "stdout w' = stdout w @ [''!!! Failed to download data !!!''] \<or>
        stdout w' = stdout w @ [''!!! Data download appears corrupted !!!'']"
    by auto
qed

theorem data_retrieval_persists_only_verified_witness:
  "data_retrieval (\<lambda>u. Returned \<lparr>status_code = 200, content = [80, 75, 3, 4]\<rparr>)
      (\<lambda>b. ''00000000000000000000000000000000'')
      \<lparr>fs = Map.empty, stdout = [], http_gets = []\<rparr>
    = (Inr (), \<lparr>fs = Map.empty, stdout = [''!!! Data download appears corrupted !!!''],
               http_gets = [url]\<rparr>)
   \<and> \<not> isfile Map.empty fname
   \<and> data_retrieval (\<lambda>u. Returned \<lparr>status_code = 200, content = [80, 75, 3, 4]\<rparr>)
      (\<lambda>b. expected_md5)
      \<lparr>fs = Map.empty, stdout = [], http_gets = []\<rparr>
    = (Inr (), \<lparr>fs = [fname \<mapsto> File [80, 75, 3, 4]], stdout = [], http_gets = [url]\<rparr>)
   \<and> [fname \<mapsto> File [80, 75, 3, 4]] \<noteq> Map.empty"
proof -
  let ?r = "\<lparr>status_code = 200, content = [80, 75, 3, 4]\<rparr>"
  let ?rg = "\<lambda>u :: string. Returned ?r"
  let ?bad = "\<lambda>b :: bytes. ''00000000000000000000000000000000''"
  let ?good = "\<lambda>b :: bytes. expected_md5"
  let ?w = "\<lparr>fs = Map.empty, stdout = [], http_gets = []\<rparr>"
  let ?w1 = "\<lparr>fs = Map.empty, stdout = [''!!! Data download appears corrupted !!!''],
               http_gets = [url]\<rparr>"
  let ?w2 = "\<lparr>fs = [fname \<mapsto> File [80, 75, 3, 4]], stdout = [], http_gets = [url]\<rparr>"
  have absent: "\<not> isfile (fs ?w) fname" by (simp add: isfile_def)
  have run1: "data_retrieval ?rg ?bad ?w = (Inr (), ?w1)"
    by (simp add: data_retrieval_def isfile_def Let_def codes_ok_def expected_md5_def
        print_line_def return_def)
  have run2: "data_retrieval ?rg ?good ?w = (Inr (), ?w2)"
    by (simp add: data_retrieval_def isfile_def Let_def codes_ok_def open_wb_write_def
        return_def)
  have bad: "?rg url = Raised_ConnectionError \<or>
      (\<exists>r. ?rg url = Returned r \<and>
          (status_code r \<noteq> codes_ok \<or> ?bad (content r) \<noteq> expected_md5))"
    by (simp add: expected_md5_def)
  have changed: "fs ?w2 \<noteq> fs ?w"
    by (simp add: fun_eq_iff)
  have c1: "fs ?w1 = fs ?w \<and> \<not> isfile (fs ?w1) fname"
    using data_retrieval_persists_only_verified [OF run1] absent bad by blast
  have c2: "\<exists>r. ?rg url = Returned r \<and> ?good (content r) = expected_md5"
    using data_retrieval_persists_only_verified [OF run2] changed by blast
  show ?thesis using run1 run2 absent changed c1 c2 by simp
qed

subsection \<open>C8\<close>

text \<open>
  C8. In every run of the data-retrieval block, \<^verbatim>\<open>requests.get\<close> is called at most once,
  on the fixed URL, and not at all when the cache file exists: then the world is left as it
  is. There is no retry after a failed fetch. Once a run has written the cache file, the
  file exists, and any later run, whatever the network would answer, fetches nothing and
  writes nothing.
\<close>

theorem data_retrieval_single_fetch:
  assumes run: "data_retrieval requests_get md5_hexdigest w = (res, w')"
  shows "http_gets w' = http_gets w @ (if isfile (fs w) fname then [] else [url])
       \<and> length (http_gets w') \<le> length (http_gets w) + 1
       \<and> (isfile (fs w) fname \<longrightarrow> res = Inr () \<and> w' = w)
       \<and> (fs w' \<noteq> fs w \<longrightarrow>
            isfile (fs w') fname \<and>
            data_retrieval requests_get2 md5_hexdigest2 w' = (Inr (), w'))"
proof (intro conjI impI)
  have "http_gets (snd (data_retrieval requests_get md5_hexdigest w)) =
     http_gets w @ (if isfile (fs w) fname then [] else [url])"
    by (rule data_retrieval_http_gets)
  then show gets: "http_gets w' = http_gets w @ (if isfile (fs w) fname then [] else [url])"
    using run by simp
  then show "length (http_gets w') \<le> length (http_gets w) + 1" by simp
next
  assume "isfile (fs w) fname"
  then have "data_retrieval requests_get md5_hexdigest w = (Inr (), w)"
    by (rule data_retrieval_cached)
  then show "res = Inr ()" and "w' = w" using run by simp_all
next
  assume "fs w' \<noteq> fs w"
  then have "fs (snd (data_retrieval requests_get md5_hexdigest w)) \<noteq> fs w"
    using run by simp
  from data_retrieval_fs_changed [OF this] run
  show cached: "isfile (fs w') fname"
    by (auto simp add: isfile_after_write)
  then show "data_retrieval requests_get2 md5_hexdigest2 w' = (Inr (), w')"
    by (rule data_retrieval_cached)
qed

theorem data_retrieval_single_fetch_witness:
  "data_retrieval (\<lambda>u. Returned \<lparr>status_code = 200, content = [80, 75, 3, 4]\<rparr>)
      (\<lambda>b. expected_md5) \<lparr>fs = Map.empty, stdout = [], http_gets = []\<rparr>
    = (Inr (), \<lparr>fs = [fname \<mapsto> File [80, 75, 3, 4]], stdout = [], http_gets = [url]\<rparr>)
   \<and> [fname \<mapsto> File [80, 75, 3, 4]] \<noteq> Map.empty
   \<and> isfile [fname \<mapsto> File [80, 75, 3, 4]] fname
   \<and> data_retrieval (\<lambda>u. Raised_ConnectionError) (\<lambda>b. [])
        \<lparr>fs = [fname \<mapsto> File [80, 75, 3, 4]], stdout = [], http_gets = [url]\<rparr>
    = (Inr (), \<lparr>fs = [fname \<mapsto> File [80, 75, 3, 4]], stdout = [], http_gets = [url]\<rparr>)"
proof -
  let ?r = "\<lparr>status_code = 200, content = [80, 75, 3, 4]\<rparr>"
  let ?rg = "\<lambda>u :: string. Returned ?r"
  let ?good = "\<lambda>b :: bytes. expected_md5"
  let ?w = "\<lparr>fs = Map.empty, stdout = [], http_gets = []\<rparr>"
  let ?w2 = "\<lparr>fs = [fname \<mapsto> File [80, 75, 3, 4]], stdout = [], http_gets = [url]\<rparr>"
  have run: "data_retrieval ?rg ?good ?w = (Inr (), ?w2)"
    by (simp add: data_retrieval_def isfile_def Let_def codes_ok_def open_wb_write_def
        return_def)
  have changed: "fs ?w2 \<noteq> fs ?w"
    by (simp add: fun_eq_iff)
  have again: "isfile (fs ?w2) fname \<and>
      data_retrieval (\<lambda>u. Raised_ConnectionError) (\<lambda>b. []) ?w2 = (Inr (), ?w2)"
    using data_retrieval_single_fetch [OF run] changed by blast
  show ?thesis using run changed again by simp
qed

subsection \<open>C9\<close>

text \<open>
  The claim says that every readable archive is deserialized into a dictionary with one
  entry per named array. An archive can hold two arrays under one name (numpy drops the
  suffix \<^verbatim>\<open>.npy\<close> of a member's name, so the members \<^verbatim>\<open>a.npy\<close> and \<^verbatim>\<open>a\<close> are both named
  \<^verbatim>\<open>a\<close>). For such an archive, with every member readable, \<open>load_steinmetz_data\<close> returns no
  dictionary: \<^verbatim>\<open>dict(**dobj)\<close> raises a TypeError.
\<close>

theorem load_steinmetz_data_repeated_name_counterexample:
  "[fname \<mapsto> File [80, 75, 3, 4]] fname = Some (File [80, 75, 3, 4])
   \<and> getitem \<lparr>files = [''a'', ''a''], getitem = \<lambda>k. Inr (1 :: nat)\<rparr> ''a'' = Inr 1
   \<and> load_steinmetz_data (\<lambda>b. Inr \<lparr>files = [''a'', ''a''], getitem = \<lambda>k. Inr (1 :: nat)\<rparr>)
        [fname \<mapsto> File [80, 75, 3, 4]] fname
      = Inl (TypeError_multiple_values ''dict()'' ''a'')
   \<and> raises_class ''TypeError''
        (load_steinmetz_data (\<lambda>b. Inr \<lparr>files = [''a'', ''a''], getitem = \<lambda>k. Inr (1 :: nat)\<rparr>)
           [fname \<mapsto> File [80, 75, 3, 4]] fname)"
  by (simp add: load_steinmetz_data_def np_load_def open_rb_read_def dict_of_def and_then_def
      return_def raise_def raises_class_def)
     (simp add: TypeError_multiple_values_def)

text \<open>
  C9, as amended. For every readable local archive file (a regular file that numpy opens as
  an archive each of whose members it can decode) in which no two arrays have the same
  name, \<open>load_steinmetz_data\<close> returns a dictionary from field name to array with one entry
  per named array of the archive: its keys are the names stored in the archive, and each key
  is bound to the array the archive holds under it. When a name occurs twice, the function
  raises a TypeError and returns nothing.
\<close>

theorem load_steinmetz_data_mapping:
  assumes regular: "f data_fname = Some (File b)"
    and archive: "npz_parse b = Inr dobj"
    and members: "\<forall>k\<in>set (files dobj). \<exists>v. getitem dobj k = Inr v"
  shows "(distinct (files dobj) \<longrightarrow>
            (\<exists>data. load_steinmetz_data npz_parse f data_fname = Inr data
               \<and> dom data = set (files dobj)
               \<and> (\<forall>k\<in>set (files dobj). getitem dobj k = Inr (the (data k)))))
       \<and> (\<not> distinct (files dobj) \<longrightarrow>
            raises_class ''TypeError'' (load_steinmetz_data npz_parse f data_fname))"
proof (intro conjI impI)
  have load: "load_steinmetz_data npz_parse f data_fname = dict_of dobj"
    using regular archive
    by (cases "dict_of dobj")
       (simp_all add: load_steinmetz_data_def np_load_def open_rb_read_def and_then_def
          return_def)
  {
    assume d: "distinct (files dobj)"
    let ?data = "\<lambda>k. if k \<in> set (files dobj) then Some (projr (getitem dobj k)) else None"
    have "dict_of dobj = Inr ?data"
      unfolding dict_of_def using members d by (simp add: dict_items_distinct)
    then have "load_steinmetz_data npz_parse f data_fname = Inr ?data"
      using load by simp
    moreover have "dom ?data = set (files dobj)"
      by (auto simp add: dom_def)
    moreover have "\<forall>k\<in>set (files dobj). getitem dobj k = Inr (the (?data k))"
      using members by auto
    ultimately show "\<exists>data. load_steinmetz_data npz_parse f data_fname = Inr data
               \<and> dom data = set (files dobj)
               \<and> (\<forall>k\<in>set (files dobj). getitem dobj k = Inr (the (data k)))"
      by blast
  }
  {
    assume "\<not> distinct (files dobj)"
    then have "raises_class ''TypeError'' (dict_items dobj (files dobj) Map.empty)"
      using members by (intro dict_items_repeated) simp_all
    then show "raises_class ''TypeError'' (load_steinmetz_data npz_parse f data_fname)"
      using load by (simp add: dict_of_def)
  }
qed

theorem load_steinmetz_data_mapping_witness:
  "[fname \<mapsto> File [80, 75, 3, 4]] fname = Some (File [80, 75, 3, 4])
   \<and> distinct [''spikes'', ''choices'']
   \<and> (\<exists>data.
         load_steinmetz_data
           (\<lambda>b. Inr \<lparr>files = [''spikes'', ''choices''],
                     getitem = \<lambda>k. if k = ''spikes'' then Inr (1 :: nat)
                                    else if k = ''choices'' then Inr 2
                                    else Inl (Exn ''KeyError'' k)\<rparr>)
           [fname \<mapsto> File [80, 75, 3, 4]] fname = Inr data
         \<and> dom data = {''spikes'', ''choices''}
         \<and> data ''spikes'' = Some 1 \<and> data ''choices'' = Some 2)
   \<and> \<not> distinct [''spikes'', ''spikes'']
   \<and> raises_class ''TypeError''
        (load_steinmetz_data
           (\<lambda>b. Inr \<lparr>files = [''spikes'', ''spikes''], getitem = \<lambda>k. Inr (1 :: nat)\<rparr>)
           [fname \<mapsto> File [80, 75, 3, 4]] fname)"
proof -
  let ?get = "\<lambda>k. if k = ''spikes'' then Inr (1 :: nat) else if k = ''choices'' then Inr 2
                   else Inl (Exn ''KeyError'' k)"
  let ?dobj = "\<lparr>files = [''spikes'', ''choices''], getitem = ?get\<rparr>"
  let ?twice = "\<lparr>files = [''spikes'', ''spikes''], getitem = \<lambda>k. Inr (1 :: nat)\<rparr>"
  let ?f = "[fname \<mapsto> File [80, 75, 3, 4]]"
  have regular: "?f fname = Some (File [80, 75, 3, 4])" by simp
  let ?parse = "\<lambda>b :: bytes. Inr ?dobj :: exn + nat npzfile"
  let ?parse2 = "\<lambda>b :: bytes. Inr ?twice :: exn + nat npzfile"
  have archive: "?parse [80, 75, 3, 4] = Inr ?dobj" by simp
  have archive2: "?parse2 [80, 75, 3, 4] = Inr ?twice" by simp
  have members: "\<forall>k\<in>set (files ?dobj). \<exists>v. getitem ?dobj k = Inr v" by simp
  have members2: "\<forall>k\<in>set (files ?twice). \<exists>v. getitem ?twice k = Inr v" by simp
  have names: "distinct (files ?dobj)" by simp
  have names2: "\<not> distinct (files ?twice)" by simp
  from load_steinmetz_data_mapping
         [where f = ?f and data_fname = fname and b = "[80, 75, 3, 4]"
            and npz_parse = ?parse and dobj = ?dobj, OF regular archive members] names
  obtain data where
    loaded: "load_steinmetz_data (\<lambda>b. Inr ?dobj) ?f fname = Inr data"
    and keys: "dom data = set (files ?dobj)"
    and vals: "\<forall>k\<in>set (files ?dobj). getitem ?dobj k = Inr (the (data k))"
    by blast
  from load_steinmetz_data_mapping
         [where f = ?f and data_fname = fname and b = "[80, 75, 3, 4]"
            and npz_parse = ?parse2 and dobj = ?twice, OF regular archive2 members2] names2
  have twice: "raises_class ''TypeError'' (load_steinmetz_data ?parse2 ?f fname)"
    by blast
  have d: "dom data = {''spikes'', ''choices''}" using keys by auto
  have "''spikes'' \<in> dom data" and "''choices'' \<in> dom data" using d by simp_all
  then obtain a c where a: "data ''spikes'' = Some a" and c: "data ''choices'' = Some c"
    by blast
  have "a = 1" using vals a by simp
  moreover have "c = 2" using vals c by simp
  ultimately have "data ''spikes'' = Some 1 \<and> data ''choices'' = Some 2" using a c by simp
  then have "\<exists>data. load_steinmetz_data (\<lambda>b. Inr ?dobj) ?f fname = Inr data
         \<and> dom data = {''spikes'', ''choices''}
         \<and> data ''spikes'' = Some 1 \<and> data ''choices'' = Some 2"
    using loaded d by blast
  then show ?thesis using regular twice by simp
qed

subsection \<open>C10\<close>

text \<open>
  C10. If the named local file is absent when \<open>load_steinmetz_data\<close> is called (as after a
  download that was refused), the function returns no value: the error of opening the file
  is the error that leaves the function. For the file name of the notebook, \<open>fname\<close>, it is
  a FileNotFoundError when nothing has that name.
\<close>

theorem load_steinmetz_data_absent_file:
  assumes "\<not> isfile f data_fname"
  shows "(\<exists>e. open_rb_read f data_fname = Inl e
             \<and> load_steinmetz_data npz_parse f data_fname = Inl e)
       \<and> (data_fname = fname \<and> f fname = None \<longrightarrow>
            load_steinmetz_data npz_parse f fname = Inl (FileNotFoundError fname)
            \<and> raises_class ''FileNotFoundError'' (load_steinmetz_data npz_parse f fname))"
proof -
  have "open_rb_read f data_fname =
          Inl (if f data_fname = None then FileNotFoundError data_fname
               else IsADirectoryError data_fname)"
    using assms
    by (simp add: open_rb_read_def raise_def isfile_def split: option.splits fs_entry.splits)
  then show ?thesis
    using load_steinmetz_data_not_a_file [OF assms, of npz_parse]
    by (auto simp add: raises_class_def FileNotFoundError_def)
qed

theorem load_steinmetz_data_absent_file_witness:
  "\<not> isfile (fs (snd (data_retrieval (\<lambda>u. Raised_ConnectionError) (\<lambda>b. [])
                        \<lparr>fs = Map.empty, stdout = [], http_gets = []\<rparr>))) fname
   \<and> load_steinmetz_data (\<lambda>b. Inr \<lparr>files = [], getitem = \<lambda>k. Inr (0 :: nat)\<rparr>)
        (fs (snd (data_retrieval (\<lambda>u. Raised_ConnectionError) (\<lambda>b. [])
                        \<lparr>fs = Map.empty, stdout = [], http_gets = []\<rparr>))) fname
      = Inl (Exn ''FileNotFoundError'' fname)"
proof -
  let ?w = "\<lparr>fs = Map.empty, stdout = [], http_gets = []\<rparr>"
  let ?f = "fs (snd (data_retrieval (\<lambda>u. Raised_ConnectionError) (\<lambda>b. []) ?w))"
  have f: "?f = Map.empty"
    by (simp add: data_retrieval_def isfile_def Let_def print_line_def)
  have absent: "\<not> isfile ?f fname"
    by (simp add: f isfile_def)
  have none: "?f fname = None"
    by (simp add: f)
  from load_steinmetz_data_absent_file
         [OF absent, of "\<lambda>b. Inr \<lparr>files = [], getitem = \<lambda>k. Inr (0 :: nat)\<rparr>"] none absent
  show ?thesis by (simp add: FileNotFoundError_def)
qed

end
